theory Spec2Isabelle
  imports Complex_Main
begin

section \<open>Conventions of the embedding\<close>

text \<open>
  The program is Python.  Its \<open>float\<close> values are modelled by exact rationals
  (\<^typ>\<open>rat\<close>): the decisions verified below compare quantities that are far from any
  rounding boundary, and the one place where the source produces an infinity
  (\<open>float('inf')\<close> in the cost calculator) has a constructor of its own.  The rounding
  of doubles, their overflow to an infinity and \<open>NaN\<close> have no counterpart in
  \<^typ>\<open>rat\<close>: a call on which \<open>int\<close> or \<open>round\<close> raises for such a value is not
  represented, and the general statements about the sizing speak of the results that
  are returned and of the branch structure, never of the outcome of the arithmetic.
  Python's
  unbounded \<open>int\<close> is \<^typ>\<open>int\<close>.  A \<open>str\<close> is a \<^typ>\<open>string\<close> whose characters stand
  for the code points below 256; text with code points beyond them is outside the
  model.  A reading of \<open>datetime.now()\<close> is a count of microseconds.  Every \<open>raise\<close>
  that the modelled code can reach is a value \<open>Inl e\<close> of a sum type; \<open>FetchError\<close>
  stands for whatever exception a fetcher raises.
\<close>

datatype py_error =
    ZeroDivisionError
  | JSONDecodeError
  | AttributeError
  | KeyError
  | TypeError
  | ValueError
  | IndexError
  | FetchError

text \<open>A reading of \<open>datetime.now()\<close>, which carries no time zone; in microseconds.\<close>

type_synonym clock = int

text \<open>
  A \<open>datetime\<close> built by a fetcher.  The Finnhub, Alpha Vantage and RSS clients build
  naive values (\<open>fromtimestamp\<close>, \<open>strptime\<close>, \<open>datetime(*parsed[:6])\<close>), the NewsAPI
  client builds values with a UTC offset (\<open>fromisoformat\<close> of a text ending in
  \<open>+00:00\<close>).  Two values of the same kind compare by their microseconds; Python
  raises \<open>TypeError\<close> on ordering a naive against an aware one.
\<close>

datatype datetime = Naive int | Aware int

fun is_aware :: "datetime \<Rightarrow> bool" where
  "is_aware (Naive t) = False"
| "is_aware (Aware t) = True"

fun micros :: "datetime \<Rightarrow> int" where
  "micros (Naive t) = t"
| "micros (Aware t) = t"

definition timedelta_minutes :: "int \<Rightarrow> int" where
  "timedelta_minutes m = m * 60 * 1000000"

text \<open>A float that may be \<open>float('inf')\<close>.\<close>

datatype xfloat = Finite rat | Infinity

text \<open>\<open>int(x)\<close> on a float truncates towards zero.\<close>

definition py_int :: "rat \<Rightarrow> int" where
  "py_int x = (if 0 \<le> x then \<lfloor>x\<rfloor> else \<lceil>x\<rceil>)"

text \<open>\<open>a / b\<close> raises on a zero divisor.\<close>

definition py_truediv :: "rat \<Rightarrow> rat \<Rightarrow> py_error + rat" where
  "py_truediv a b = (if b = 0 then Inl ZeroDivisionError else Inr (a / b))"

text \<open>\<open>round(x, 2)\<close>: to the nearest hundredth, a tie going to the even neighbour.\<close>

definition py_round2 :: "rat \<Rightarrow> rat" where
  "py_round2 x =
     (let y = x * 100; f = \<lfloor>y\<rfloor>; d = y - of_int f
      in of_int (if d < 1 / 2 then f
                 else if 1 / 2 < d then f + 1
                 else if even f then f else f + 1) / 100)"

subsection \<open>Strings\<close>

text \<open>
  \<open>str.lower()\<close>: the letters \<open>A\<close> to \<open>Z\<close> and the capital letters from U+00C0 to
  U+00DE (U+00D7 is the multiplication sign) move up by 32.
\<close>

definition char_lower :: "char \<Rightarrow> char" where
  "char_lower c =
     (let n = (of_char c :: nat) in
      if (65 \<le> n \<and> n \<le> 90) \<or> (192 \<le> n \<and> n \<le> 222 \<and> n \<noteq> 215)
        then char_of (n + 32) else c)"

definition py_lower :: "string \<Rightarrow> string" where
  "py_lower s = map char_lower s"

text \<open>
  \<open>str.upper()\<close>: the letters \<open>a\<close> to \<open>z\<close> and the small letters from U+00E0 to
  U+00FE (U+00F7 is the division sign) move down by 32, and the sharp s U+00DF becomes
  \<open>SS\<close>.  The upper case of U+00B5 and of U+00FF lies beyond the code points of the
  model; they are left as they are, which like their true image is no ASCII letter.
\<close>

definition char_upper :: "char \<Rightarrow> string" where
  "char_upper c =
     (let n = (of_char c :: nat) in
      if (97 \<le> n \<and> n \<le> 122) \<or> (224 \<le> n \<and> n \<le> 254 \<and> n \<noteq> 247)
        then [char_of (n - 32)]
      else if n = 223 then ''SS''
      else [c])"

definition py_upper :: "string \<Rightarrow> string" where
  "py_upper s = concat (map char_upper s)"

text \<open>
  The characters \<open>str.strip()\<close> removes: tab to carriage return, the four separators
  U+001C to U+001F, the space, the next-line character U+0085 and the no-break space
  U+00A0.
\<close>

definition is_space :: "char \<Rightarrow> bool" where
  "is_space c =
     (let n = (of_char c :: nat) in
      (9 \<le> n \<and> n \<le> 13) \<or> (28 \<le> n \<and> n \<le> 32) \<or> n = 133 \<or> n = 160)"

definition py_strip :: "string \<Rightarrow> string" where
  "py_strip s = rev (dropWhile is_space (rev (dropWhile is_space s)))"

fun startswith :: "string \<Rightarrow> string \<Rightarrow> bool" where
  "startswith s [] = True"
| "startswith [] (p # ps) = False"
| "startswith (c # cs) (p # ps) = (c = p \<and> startswith cs ps)"

text \<open>\<open>sep in s\<close>.\<close>

fun contains :: "string \<Rightarrow> string \<Rightarrow> bool" where
  "contains [] sep = (sep = [])"
| "contains (c # cs) sep = (startswith (c # cs) sep \<or> contains cs sep)"

text \<open>
  \<open>s.split(sep)\<close> for a non-empty separator: \<open>cur\<close> is the piece being read, and a match
  of the separator closes it and skips the separator.
\<close>

fun split_from :: "string \<Rightarrow> string \<Rightarrow> string \<Rightarrow> string list" where
  "split_from sep cur [] = [cur]"
| "split_from sep cur (c # cs) =
     (if sep \<noteq> [] \<and> startswith (c # cs) sep
        then cur # split_from sep [] (drop (length sep - 1) cs)
      else split_from sep (cur @ [c]) cs)"

definition py_split :: "string \<Rightarrow> string \<Rightarrow> string list" where
  "py_split s sep = split_from sep [] s"

text \<open>\<open>xs[i]\<close> for an index that is not negative.\<close>

definition py_index :: "'a list \<Rightarrow> nat \<Rightarrow> py_error + 'a" where
  "py_index xs i = (if i < length xs then Inr (xs ! i) else Inl IndexError)"

text \<open>
  \<open>sorted(xs, key=f, reverse=True)\<close> and \<open>xs.sort(key=f, reverse=True)\<close>: descending in
  the key, elements of equal key keeping the order they had.  Python reverses, sorts
  stably in ascending order and reverses again.
\<close>

definition sort_reverse :: "('a \<Rightarrow> 'k::linorder) \<Rightarrow> 'a list \<Rightarrow> 'a list" where
  "sort_reverse f xs = rev (sort_key f (rev xs))"

section \<open>News fusion (news\_aggregator.py)\<close>

datatype NewsSource = FINNHUB | ALPHA_VANTAGE | NEWSAPI | BENZINGA | RSS

datatype NewsSentiment = VERY_BULLISH | BULLISH | NEUTRAL | BEARISH | VERY_BEARISH

record NewsArticle =
  article_id :: string
  headline :: string
  summary :: string
  source :: NewsSource
  url :: string
  published_at :: datetime
  symbols :: "string list"
  sentiment :: "NewsSentiment option"
  sentiment_score :: "rat option"
  relevance_score :: "rat option"
  categories :: "string list"

record MarketNews =
  articles :: "NewsArticle list"
  fetch_time :: clock
  overall_sentiment :: rat
  trending_symbols :: "string list"
  key_themes :: "string list"

text \<open>
  The aggregator object.  \<open>clients\<close> holds the keys of \<open>self._clients\<close> in insertion
  order (the client objects themselves are the external fetchers), \<open>cache\<close> is the
  dictionary \<open>self._cache\<close>.
\<close>

record NewsAggregator =
  clients :: "string list"
  cache :: "string \<rightharpoonup> clock \<times> NewsArticle list"
  cache_ttl :: int

text \<open>\<open>config.get(k)\<close> is true for a key that is present with a non-empty value.\<close>

definition config_has :: "(string \<rightharpoonup> string) \<Rightarrow> string \<Rightarrow> bool" where
  "config_has config k = (case config k of None \<Rightarrow> False | Some v \<Rightarrow> v \<noteq> [])"

text \<open>\<open>NewsAggregator.__init__\<close> with \<open>_initialize_clients\<close>.\<close>

definition NewsAggregator_init :: "(string \<rightharpoonup> string) \<Rightarrow> NewsAggregator" where
  "NewsAggregator_init config =
     \<lparr>clients =
        (if config_has config ''finnhub_key'' then [''finnhub''] else []) @
        (if config_has config ''alpha_vantage_key'' then [''alpha_vantage''] else []) @
        (if config_has config ''newsapi_key'' then [''newsapi''] else []) @
        [''rss''],
      cache = Map.empty,
      cache_ttl = timedelta_minutes 5\<rparr>"

text \<open>The key of \<open>_deduplicate\<close>: \<open>article.headline.lower().strip()[:50]\<close>.\<close>

definition normalized :: "NewsArticle \<Rightarrow> string" where
  "normalized article = take 50 (py_strip (py_lower (headline article)))"

text \<open>The loop of \<open>_deduplicate\<close>, with its two variables.\<close>

fun dedup_loop :: "NewsArticle list \<Rightarrow> string set \<Rightarrow> NewsArticle list \<Rightarrow> NewsArticle list" where
  "dedup_loop [] seen_headlines unique = unique"
| "dedup_loop (article # rest) seen_headlines unique =
     (if normalized article \<notin> seen_headlines
        then dedup_loop rest (insert (normalized article) seen_headlines) (unique @ [article])
      else dedup_loop rest seen_headlines unique)"

text \<open>
  \<open>unique.sort(key=lambda x: x.published_at, reverse=True)\<close>.  A comparison sort
  orders its input only through comparisons that link all the elements, so it compares
  a naive with an aware key, and raises, exactly when both kinds occur.
\<close>

definition sort_newest_first :: "NewsArticle list \<Rightarrow> py_error + NewsArticle list" where
  "sort_newest_first unique =
     (if list_ex (\<lambda>x. is_aware (published_at x)) unique \<and>
         list_ex (\<lambda>x. \<not> is_aware (published_at x)) unique
        then Inl TypeError
      else Inr (sort_reverse (\<lambda>x. micros (published_at x)) unique))"

text \<open>\<open>NewsAggregator._deduplicate\<close>.\<close>

definition deduplicate :: "NewsArticle list \<Rightarrow> py_error + NewsArticle list" where
  "deduplicate arts = sort_newest_first (dedup_loop arts {} [])"

text \<open>
  The counting loops of \<open>_build_market_news\<close>.  The dictionary keeps its keys in the
  order of first insertion, which \<open>sorted\<close> then reads; it is an association list.
\<close>

fun count_up :: "(string \<times> int) list \<Rightarrow> string \<Rightarrow> (string \<times> int) list" where
  "count_up [] k = [(k, 0 + 1)]"
| "count_up ((k', n) # kvs) k = (if k' = k then (k', n + 1) # kvs else (k', n) # count_up kvs k)"

definition count_of :: "(string \<times> int) list \<Rightarrow> string \<Rightarrow> int" where
  "count_of counts k = (case map_of counts k of None \<Rightarrow> 0 | Some n \<Rightarrow> n)"

definition build_market_news :: "NewsArticle list \<Rightarrow> clock \<Rightarrow> MarketNews" where
  "build_market_news arts now =
     (let sentiment_scores = List.map_filter sentiment_score arts;
          overall =
            (if sentiment_scores \<noteq> []
               then sum_list sentiment_scores / of_nat (length sentiment_scores)
             else 0);
          symbol_counts = foldl count_up [] (concat (map symbols arts));
          trending = take 10 (sort_reverse (count_of symbol_counts) (map fst symbol_counts));
          category_counts = foldl count_up [] (concat (map categories arts));
          themes = take 5 (sort_reverse (count_of category_counts) (map fst category_counts))
      in \<lparr>articles = arts, fetch_time = now, overall_sentiment = overall,
          trending_symbols = trending, key_themes = themes\<rparr>)"

text \<open>
  What one call of \<open>get_market_news\<close> observes of the world: the clock at the cache
  check, what each client's coroutine yields under
  \<open>asyncio.gather(..., return_exceptions=True)\<close> (a list of articles, or the exception
  it raised), the clock when the cache is written and the clock when the result is
  built.
\<close>

record fetch_env =
  now_check :: clock
  outcome :: "string \<Rightarrow> py_error + NewsArticle list"
  now_store :: clock
  now_built :: clock

text \<open>The loop over the gathered results: lists are appended, exceptions are logged.\<close>

fun collect :: "(py_error + NewsArticle list) list \<Rightarrow> NewsArticle list" where
  "collect [] = []"
| "collect (Inr result # results) = result @ collect results"
| "collect (Inl e # results) = collect results"

text \<open>The list \<open>tasks\<close>, as the names of the clients whose coroutine is awaited.\<close>

definition market_tasks :: "NewsAggregator \<Rightarrow> bool \<Rightarrow> string list" where
  "market_tasks self include_sentiment =
     (if ''finnhub'' \<in> set (clients self) then [''finnhub''] else []) @
     (if ''alpha_vantage'' \<in> set (clients self) \<and> include_sentiment
        then [''alpha_vantage''] else []) @
     (if ''newsapi'' \<in> set (clients self) then [''newsapi''] else []) @
     (if ''rss'' \<in> set (clients self) then [''rss''] else [])"

text \<open>
  \<open>get_market_news\<close> from the line \<open>all_articles = []\<close> on: gather, collect,
  deduplicate, write the cache, build.  The result carries the tasks that were awaited.
\<close>

definition fetch_market_news ::
  "NewsAggregator \<Rightarrow> bool \<Rightarrow> fetch_env
     \<Rightarrow> py_error + NewsAggregator \<times> MarketNews \<times> string list" where
  "fetch_market_news self include_sentiment env =
     (let tasks = market_tasks self include_sentiment;
          results = map (outcome env) tasks;
          all_articles = collect results
      in case deduplicate all_articles of
           Inl e \<Rightarrow> Inl e
         | Inr unique_articles \<Rightarrow>
             Inr (self\<lparr>cache :=
                        (cache self)(''market_news'' \<mapsto> (now_store env, unique_articles))\<rparr>,
                  build_market_news unique_articles (now_built env),
                  tasks))"

text \<open>
  \<open>NewsAggregator.get_market_news\<close>.  It returns the aggregator after the call, the
  \<open>MarketNews\<close>, and the tasks awaited during the call (none on the cached path, where
  the source returns before \<open>tasks\<close> exists).  When \<open>_deduplicate\<close> raises, the
  exception leaves the function and the aggregator is as it was.
\<close>

definition get_market_news ::
  "NewsAggregator \<Rightarrow> bool \<Rightarrow> bool \<Rightarrow> fetch_env
     \<Rightarrow> py_error + NewsAggregator \<times> MarketNews \<times> string list" where
  "get_market_news self use_cache include_sentiment env =
     (if use_cache \<and> ''market_news'' \<in> dom (cache self) then
        (case cache self ''market_news'' of
           None \<Rightarrow> fetch_market_news self include_sentiment env
         | Some (cached_time, cached_data) \<Rightarrow>
             if now_check env - cached_time < cache_ttl self
               then Inr (self, build_market_news cached_data (now_built env), [])
             else fetch_market_news self include_sentiment env)
      else fetch_market_news self include_sentiment env)"

section \<open>Regime classification (market\_analyzer.py)\<close>

datatype MarketRegime = TRENDING_BULLISH | TRENDING_BEARISH | RANGE_BOUND | HIGH_UNCERTAINTY | CRISIS

text \<open>
  A value decoded by \<open>json.loads\<close>.  An object is a dictionary in the order of its keys;
  \<open>int\<close> and \<open>float\<close> share the constructor \<open>JNum\<close>.  The values \<open>NaN\<close> and
  \<open>Infinity\<close>, which \<open>json.loads\<close> accepts, and an integer too large for \<open>float\<close> are
  not represented.
\<close>

datatype json =
    JNull
  | JBool bool
  | JNum rat
  | JStr string
  | JList "json list"
  | JDict "(string \<times> json) list"

text \<open>
  The fields of the dataclasses carry type hints only; the parser stores what
  \<open>data.get\<close> returns, so the fields it does not convert hold a \<^typ>\<open>json\<close> value.
\<close>

record SectorRecommendation =
  sector :: json
  stance :: json
  reason :: json

record RegimeAnalysis =
  regime :: MarketRegime
  confidence :: rat
  reasoning :: json
  recommended_strategy :: json
  position_size_modifier :: rat
  sector_recommendations :: "SectorRecommendation list"
  risk_level :: json
  key_risks :: json
  outlook_horizon :: json
  key_events_ahead :: json
  analysis_time :: clock
  news_count :: int

text \<open>
  The library functions the parser calls: \<open>json.loads\<close>, the conversion of a string by
  \<open>float\<close> (\<open>None\<close> where it raises \<open>ValueError\<close>), and \<open>str\<close> of an exception.
\<close>

record py_runtime =
  json_loads :: "string \<Rightarrow> py_error + json"
  float_of_str :: "string \<Rightarrow> rat option"
  exc_str :: "py_error \<Rightarrow> string"

text \<open>\<open>data.get(k, default)\<close>: an attribute error unless \<open>data\<close> is a dictionary.\<close>

definition json_get :: "json \<Rightarrow> string \<Rightarrow> json \<Rightarrow> py_error + json" where
  "json_get data k dflt =
     (case data of
        JDict kvs \<Rightarrow> Inr (case map_of kvs k of None \<Rightarrow> dflt | Some v \<Rightarrow> v)
      | _ \<Rightarrow> Inl AttributeError)"

text \<open>\<open>v.upper()\<close>: an attribute error unless \<open>v\<close> is a string.\<close>

definition json_upper :: "json \<Rightarrow> py_error + string" where
  "json_upper v = (case v of JStr s \<Rightarrow> Inr (py_upper s) | _ \<Rightarrow> Inl AttributeError)"

text \<open>\<open>MarketRegime[name]\<close>.\<close>

definition MarketRegime_named :: "string \<Rightarrow> py_error + MarketRegime" where
  "MarketRegime_named name =
     (if name = ''TRENDING_BULLISH'' then Inr TRENDING_BULLISH
      else if name = ''TRENDING_BEARISH'' then Inr TRENDING_BEARISH
      else if name = ''RANGE_BOUND'' then Inr RANGE_BOUND
      else if name = ''HIGH_UNCERTAINTY'' then Inr HIGH_UNCERTAINTY
      else if name = ''CRISIS'' then Inr CRISIS
      else Inl KeyError)"

text \<open>
  \<open>for sr in v\<close>: a list yields its elements, a dictionary its keys, a string its
  characters; the other values are not iterable.
\<close>

definition json_iter :: "json \<Rightarrow> py_error + json list" where
  "json_iter v =
     (case v of
        JList xs \<Rightarrow> Inr xs
      | JDict kvs \<Rightarrow> Inr (map (\<lambda>kv. JStr (fst kv)) kvs)
      | JStr s \<Rightarrow> Inr (map (\<lambda>c. JStr [c]) s)
      | _ \<Rightarrow> Inl TypeError)"

text \<open>\<open>float(v)\<close>.\<close>

definition py_float :: "py_runtime \<Rightarrow> json \<Rightarrow> py_error + rat" where
  "py_float rt v =
     (case v of
        JNum r \<Rightarrow> Inr r
      | JBool b \<Rightarrow> Inr (if b then 1 else 0)
      | JStr s \<Rightarrow> (case float_of_str rt s of None \<Rightarrow> Inl ValueError | Some r \<Rightarrow> Inr r)
      | _ \<Rightarrow> Inl TypeError)"

text \<open>The fence handling at the head of the \<open>try\<close> block.\<close>

definition fence_json :: string where
  "fence_json = ''```json''"

definition fence :: string where
  "fence = ''```''"

definition unfence :: "string \<Rightarrow> py_error + string" where
  "unfence response =
     (if contains response fence_json then
        (case py_index (py_split response fence_json) 1 of
           Inl e \<Rightarrow> Inl e
         | Inr inner \<Rightarrow> py_index (py_split inner fence) 0)
      else if contains response fence then
        (case py_index (py_split response fence) 1 of
           Inl e \<Rightarrow> Inl e
         | Inr inner \<Rightarrow> py_index (py_split inner fence) 0)
      else Inr response)"

text \<open>The loop that builds \<open>sector_recs\<close>.\<close>

fun sector_recs_of :: "json list \<Rightarrow> py_error + SectorRecommendation list" where
  "sector_recs_of [] = Inr []"
| "sector_recs_of (sr # srs) =
     (case json_get sr ''sector'' (JStr ''unknown'') of
        Inl e \<Rightarrow> Inl e
      | Inr sec \<Rightarrow>
     (case json_get sr ''stance'' (JStr ''neutral'') of
        Inl e \<Rightarrow> Inl e
      | Inr sta \<Rightarrow>
     (case json_get sr ''reason'' (JStr []) of
        Inl e \<Rightarrow> Inl e
      | Inr rea \<Rightarrow>
     (case sector_recs_of srs of
        Inl e \<Rightarrow> Inl e
      | Inr recs \<Rightarrow> Inr (\<lparr>sector = sec, stance = sta, reason = rea\<rparr> # recs)))))"

text \<open>Sequencing inside the \<open>try\<close> block: the first exception ends it.\<close>

definition attempt :: "py_error + 'a \<Rightarrow> ('a \<Rightarrow> py_error + 'b) \<Rightarrow> py_error + 'b" where
  "attempt r k = (case r of Inl e \<Rightarrow> Inl e | Inr x \<Rightarrow> k x)"

text \<open>
  The pieces of the \<open>try\<close> block of \<open>_parse_response\<close> after \<open>json.loads\<close>:
  \<open>MarketRegime[data.get("regime", "RANGE_BOUND").upper()]\<close>, the loop over
  \<open>data.get("sector_recommendations", [])\<close>, and \<open>float(data.get(k, d))\<close>.
\<close>

definition regime_of_data :: "json \<Rightarrow> py_error + MarketRegime" where
  "regime_of_data data =
     attempt (json_get data ''regime'' (JStr ''RANGE_BOUND'')) (\<lambda>regime_val.
     attempt (json_upper regime_val) (\<lambda>regime_str.
       MarketRegime_named regime_str))"

definition sector_recs_of_data :: "json \<Rightarrow> py_error + SectorRecommendation list" where
  "sector_recs_of_data data =
     attempt (json_get data ''sector_recommendations'' (JList [])) (\<lambda>recs_val.
     attempt (json_iter recs_val) (\<lambda>recs_items.
       sector_recs_of recs_items))"

definition float_of_data :: "py_runtime \<Rightarrow> json \<Rightarrow> string \<Rightarrow> rat \<Rightarrow> py_error + rat" where
  "float_of_data rt data k dflt = attempt (json_get data k (JNum dflt)) (py_float rt)"

text \<open>
  The block in the order in which the source evaluates it: the regime, the sector
  recommendations, then the arguments of the constructor from left to right.
\<close>

definition analysis_of_data ::
  "py_runtime \<Rightarrow> json \<Rightarrow> MarketNews \<Rightarrow> clock \<Rightarrow> py_error + RegimeAnalysis" where
  "analysis_of_data rt data market_news now =
     attempt (regime_of_data data) (\<lambda>regime'.
     attempt (sector_recs_of_data data) (\<lambda>sector_recs.
     attempt (float_of_data rt data ''confidence'' (1 / 2)) (\<lambda>conf.
     attempt (json_get data ''reasoning'' (JStr [])) (\<lambda>reasoning'.
     attempt (json_get data ''recommended_strategy'' (JStr ''mean_reversion'')) (\<lambda>strategy.
     attempt (float_of_data rt data ''position_size_modifier'' (1 / 2)) (\<lambda>modifier.
     attempt (json_get data ''risk_level'' (JStr ''medium'')) (\<lambda>risk_level'.
     attempt (json_get data ''key_risks'' (JList [])) (\<lambda>key_risks'.
     attempt (json_get data ''outlook_horizon'' (JStr ''1-2 Wochen'')) (\<lambda>outlook.
     attempt (json_get data ''key_events_ahead'' (JList [])) (\<lambda>events.
       Inr \<lparr>regime = regime', confidence = conf, reasoning = reasoning',
            recommended_strategy = strategy, position_size_modifier = modifier,
            sector_recommendations = sector_recs, risk_level = risk_level',
            key_risks = key_risks', outlook_horizon = outlook, key_events_ahead = events,
            analysis_time = now,
            news_count = int (length (articles market_news))\<rparr>))))))))))"

text \<open>The whole \<open>try\<close> block.\<close>

definition parse_attempt ::
  "py_runtime \<Rightarrow> string \<Rightarrow> MarketNews \<Rightarrow> clock \<Rightarrow> py_error + RegimeAnalysis" where
  "parse_attempt rt response market_news now =
     attempt (unfence response) (\<lambda>inner.
     attempt (json_loads rt (py_strip inner)) (\<lambda>data.
       analysis_of_data rt data market_news now))"

definition msg_no_analysis :: string where
  "msg_no_analysis = ''Analyse konnte nicht durchgef'' @ [CHR 0xFC] @ ''hrt werden''"

text \<open>The \<open>RegimeAnalysis\<close> of the \<open>except\<close> branch.\<close>

definition fallback_analysis ::
  "py_runtime \<Rightarrow> py_error \<Rightarrow> MarketNews \<Rightarrow> clock \<Rightarrow> RegimeAnalysis" where
  "fallback_analysis rt e market_news now =
     \<lparr>regime = HIGH_UNCERTAINTY, confidence = 3 / 10,
      reasoning = JStr (''Analyse-Fehler: '' @ exc_str rt e),
      recommended_strategy = JStr ''cash'', position_size_modifier = 25 / 100,
      sector_recommendations = [], risk_level = JStr ''high'',
      key_risks = JList [JStr msg_no_analysis],
      outlook_horizon = JStr ''unbekannt'', key_events_ahead = JList [],
      analysis_time = now,
      news_count = int (length (articles market_news))\<rparr>"

text \<open>
  \<open>MarketAnalyzer._parse_response\<close>: \<open>except Exception\<close> catches whatever the block
  raises, so the function returns a \<open>RegimeAnalysis\<close> on every input.
\<close>

definition parse_response ::
  "py_runtime \<Rightarrow> string \<Rightarrow> MarketNews \<Rightarrow> clock \<Rightarrow> RegimeAnalysis" where
  "parse_response rt response market_news now =
     (case parse_attempt rt response market_news now of
        Inr analysis \<Rightarrow> analysis
      | Inl e \<Rightarrow> fallback_analysis rt e market_news now)"

section \<open>Risk management (risk\_manager.py)\<close>

record TradeCosts =
  commission :: rat
  spread_estimate :: rat
  total_roundtrip :: rat
  breakeven_move :: xfloat

definition XETRA_RATE :: rat where "XETRA_RATE = 1 / 1000"
definition XETRA_MIN :: rat where "XETRA_MIN = 4"
definition XETRA_MAX :: rat where "XETRA_MAX = 99"
definition US_PER_SHARE :: rat where "US_PER_SHARE = 1 / 100"
definition US_MIN :: rat where "US_MIN = 2"
definition UK_RATE :: rat where "UK_RATE = 1 / 1000"
definition UK_MIN :: rat where "UK_MIN = 6"

text \<open>\<open>CostCalculator.calculate_stock_cost\<close>; the \<open>currency\<close> argument is unused by the source.\<close>

definition calculate_stock_cost :: "string \<Rightarrow> int \<Rightarrow> rat \<Rightarrow> TradeCosts" where
  "calculate_stock_cost exchange quantity price =
     (let order_value = of_int quantity * price;
          commission =
            (if exchange \<in> set [''XETRA'', ''IBIS'']
               then max XETRA_MIN (min (order_value * XETRA_RATE) XETRA_MAX)
             else if exchange \<in> set [''NYSE'', ''NASDAQ'', ''ARCA'', ''SMART'']
               then max US_MIN (of_int quantity * US_PER_SHARE)
             else if exchange \<in> set [''LSE'', ''LSEETF'']
               then max UK_MIN (order_value * UK_RATE)
             else max 4 (order_value * (1 / 1000)));
          spread_estimate =
            (if order_value > 100000 then order_value * (2 / 10000)
             else if order_value > 10000 then order_value * (5 / 10000)
             else order_value * (1 / 1000));
          total_roundtrip = commission * 2 + spread_estimate * 2;
          breakeven_move =
            (if order_value > 0 then Finite (total_roundtrip / order_value * 100)
             else Infinity)
      in \<lparr>commission = commission, spread_estimate = spread_estimate,
          total_roundtrip = total_roundtrip, breakeven_move = breakeven_move\<rparr>)"

text \<open>
  \<open>CostCalculator.is_trade_viable\<close>:
  \<open>expected_return_pct > costs.breakeven_move * min_reward_ratio\<close>.  With an infinite
  break-even the product is \<open>inf\<close>, \<open>nan\<close> or \<open>-inf\<close> as the ratio is positive, zero or
  negative, and a finite number exceeds only the last.
\<close>

definition is_trade_viable :: "TradeCosts \<Rightarrow> rat \<Rightarrow> rat \<Rightarrow> bool" where
  "is_trade_viable costs expected_return_pct min_reward_ratio =
     (case breakeven_move costs of
        Finite b \<Rightarrow> expected_return_pct > b * min_reward_ratio
      | Infinity \<Rightarrow> min_reward_ratio < 0)"

text \<open>
  The \<open>reason\<close> of a sizing result is a string.  The three fixed messages are kept as
  the source writes them; the two f-strings are kept as their template with the values
  they interpolate, the number formatting not being rendered.
\<close>

datatype reason_text =
    Message string
  | FeesTooHigh xfloat rat
  | SizingOK int rat xfloat

record PositionSizeResult =
  shares :: int
  position_value :: rat
  risk_amount :: rat
  stop_loss_price :: rat
  take_profit_price :: rat
  viable :: bool
  reason :: reason_text

record RiskManager =
  total_capital :: rat
  max_position_pct :: rat
  max_risk_per_trade :: rat
  max_portfolio_risk :: rat
  max_correlation :: rat

text \<open>\<open>RiskManager.__init__\<close> with its default limits.\<close>

definition RiskManager_init :: "rat \<Rightarrow> RiskManager" where
  "RiskManager_init capital =
     \<lparr>total_capital = capital, max_position_pct = 5 / 100, max_risk_per_trade = 1 / 100,
      max_portfolio_risk = 10 / 100, max_correlation = 7 / 10\<rparr>"

text \<open>
  Step 2 of \<open>calculate_position_size\<close> (lines 194 to 206): the stop-loss and take-profit
  percentages of a strategy.  \<open>volatility\<close> is \<open>Optional[float]\<close>, and
  \<open>x if volatility else d\<close> takes the default for \<open>None\<close> and for \<open>0.0\<close> alike.
\<close>

definition sizing_pcts :: "string \<Rightarrow> rat option \<Rightarrow> rat \<times> rat" where
  "sizing_pcts strategy volatility =
     (if strategy = ''momentum'' then
        (let stop_loss_pct =
               (case volatility of
                  None \<Rightarrow> 5 / 100
                | Some v \<Rightarrow> if v \<noteq> 0 then v * (3 / 2) else 5 / 100)
         in (stop_loss_pct, stop_loss_pct * 3))
      else if strategy = ''mean_reversion'' then
        (let stop_loss_pct =
               (case volatility of
                  None \<Rightarrow> 3 / 100
                | Some v \<Rightarrow> if v \<noteq> 0 then v * 1 else 3 / 100)
         in (stop_loss_pct, stop_loss_pct * 2))
      else if strategy = ''hedge'' then (7 / 100, 10 / 100)
      else (4 / 100, 8 / 100))"

definition msg_portfolio_limit :: string where
  "msg_portfolio_limit = ''Portfolio-Risiko-Limit erreicht''"

definition msg_invalid_stop :: string where
  "msg_invalid_stop = ''Ung'' @ [CHR 0xFC] @ ''ltiger Stop-Loss''"

definition msg_too_small :: string where
  "msg_too_small = ''Position zu klein nach Anpassung''"

definition rejected :: "rat \<Rightarrow> rat \<Rightarrow> reason_text \<Rightarrow> PositionSizeResult" where
  "rejected sl tp why =
     \<lparr>shares = 0, position_value = 0, risk_amount = 0, stop_loss_price = sl,
      take_profit_price = tp, viable = False, reason = why\<rparr>"

text \<open>
  \<open>calculate_position_size\<close> from the comment \<open>Minimum 1 Aktie\<close> on (lines 232 to
  268), as a function of the variables it reads (the two prices carry a prime, their
  names being those of the fields); \<open>adjusted_shares\<close> is the last one.
  \<open>rejected\<close> abbreviates the
  \<open>PositionSizeResult(shares=0, position_value=0, risk_amount=0, ..., viable=False, ...)\<close>
  returns of the source.
\<close>

definition size_adjusted ::
  "string \<Rightarrow> rat \<Rightarrow> rat \<Rightarrow> rat \<Rightarrow> rat \<Rightarrow> rat \<Rightarrow> int \<Rightarrow> PositionSizeResult" where
  "size_adjusted exchange entry_price stop_loss_price' take_profit_price' take_profit_pct
       risk_per_share adjusted_shares =
     (if adjusted_shares < 1
        then rejected stop_loss_price' take_profit_price' (Message msg_too_small)
      else
        let position_value = of_int adjusted_shares * entry_price;
            risk_amount = of_int adjusted_shares * risk_per_share;
            costs = calculate_stock_cost exchange adjusted_shares entry_price;
            expected_return = take_profit_pct * 100
        in
        if \<not> is_trade_viable costs expected_return 2
          then rejected stop_loss_price' take_profit_price'
                 (FeesTooHigh (breakeven_move costs) expected_return)
        else
          \<lparr>shares = adjusted_shares, position_value = position_value,
           risk_amount = risk_amount,
           stop_loss_price = py_round2 stop_loss_price',
           take_profit_price = py_round2 take_profit_price',
           viable = True,
           reason = SizingOK adjusted_shares (commission costs) (breakeven_move costs)\<rparr>)"

text \<open>
  \<open>RiskManager.calculate_position_size\<close>: steps 1 to 5, which end in the computation
  of \<open>adjusted_shares\<close>, followed by the part above.
\<close>

definition calculate_position_size ::
  "RiskManager \<Rightarrow> string \<Rightarrow> rat \<Rightarrow> string \<Rightarrow> rat \<Rightarrow> string \<Rightarrow> rat \<Rightarrow> rat option
     \<Rightarrow> py_error + PositionSizeResult" where
  "calculate_position_size self symbol entry_price strategy signal_strength exchange
       current_portfolio_risk volatility =
     (if current_portfolio_risk \<ge> max_portfolio_risk self
        then Inr (rejected 0 0 (Message msg_portfolio_limit))
      else
        let (stop_loss_pct, take_profit_pct) = sizing_pcts strategy volatility;
            stop_loss_price = entry_price * (1 - stop_loss_pct);
            take_profit_price = entry_price * (1 + take_profit_pct);
            risk_per_share = entry_price - stop_loss_price
        in
        if risk_per_share \<le> 0
          then Inr (rejected stop_loss_price take_profit_price (Message msg_invalid_stop))
        else
          let max_risk_amount = total_capital self * max_risk_per_trade self in
          (case py_truediv max_risk_amount risk_per_share of
            Inl e \<Rightarrow> Inl e
          | Inr by_risk \<Rightarrow>
          (let shares_by_risk = py_int by_risk;
               max_position_value = total_capital self * max_position_pct self in
          (case py_truediv max_position_value entry_price of
            Inl e \<Rightarrow> Inl e
          | Inr by_capital \<Rightarrow>
          (let shares_by_capital = py_int by_capital;
               base_shares = min shares_by_risk shares_by_capital;
               adjusted_shares = py_int (of_int base_shares * signal_strength)
          in
          Inr (size_adjusted exchange entry_price stop_loss_price take_profit_price
                 take_profit_pct risk_per_share adjusted_shares))))))"

section \<open>Position lifecycle (bot.py)\<close>

text \<open>
  The second component of the result of \<open>_check_exit_conditions\<close>: a fixed text, or one
  of the two f-strings with the percentage it interpolates.
\<close>

datatype exit_text =
    ExitMessage string
  | StopLossReached rat
  | TakeProfitReached rat

text \<open>
  \<open>AITradingBot._check_exit_conditions\<close>, reading \<open>self.current_regime\<close>; the
  \<open>position\<close> argument is unused by the source.
\<close>

definition check_exit_conditions :: "RegimeAnalysis \<Rightarrow> rat \<Rightarrow> bool \<times> exit_text" where
  "check_exit_conditions current_regime unrealized_pnl_pct =
     (if regime current_regime = CRISIS then (True, ExitMessage ''Marktregime: CRISIS'')
      else
        let strategy = recommended_strategy current_regime;
            (stop_loss, take_profit) =
              (if strategy = JStr ''momentum'' then (- (5 / 100), 15 / 100)
               else (- (3 / 100), 6 / 100))
        in
        if unrealized_pnl_pct \<le> stop_loss then (True, StopLossReached unrealized_pnl_pct)
        else if unrealized_pnl_pct \<ge> take_profit
          then (True, TakeProfitReached unrealized_pnl_pct)
        else (False, ExitMessage []))"

section \<open>Notions used to state the properties\<close>

subsection \<open>News fusion\<close>

text \<open>
  A call of \<open>get_market_news\<close> is served from the cache when caching is asked for and
  the slot holds an entry younger than the time to live.
\<close>

definition serves_from_cache :: "NewsAggregator \<Rightarrow> bool \<Rightarrow> clock \<Rightarrow> bool" where
  "serves_from_cache self use_cache now =
     (case cache self ''market_news'' of
        None \<Rightarrow> False
      | Some (cached_time, cached_data) \<Rightarrow> use_cache \<and> now - cached_time < cache_ttl self)"

text \<open>
  The two ways in which a fetcher reports a failure: its coroutine raises, which
  \<open>gather\<close> turns into an exception result, or the client catches the error itself and
  returns the empty list, as every client of the source does.
\<close>

definition failed :: "py_error + NewsArticle list \<Rightarrow> bool" where
  "failed r = (case r of Inl e \<Rightarrow> True | Inr arts \<Rightarrow> arts = [])"

text \<open>The articles delivered by the tasks that returned a list.\<close>

definition succeeded_articles :: "fetch_env \<Rightarrow> string list \<Rightarrow> NewsArticle set" where
  "succeeded_articles env tasks =
     (\<Union>t \<in> set tasks. case outcome env t of Inl e \<Rightarrow> {} | Inr arts \<Rightarrow> set arts)"

text \<open>An article with a given headline and publication time, the other fields empty.\<close>

definition example_article :: "string \<Rightarrow> datetime \<Rightarrow> NewsArticle" where
  "example_article h t =
     \<lparr>article_id = [], headline = h, summary = [], source = RSS, url = [],
      published_at = t, symbols = [], sentiment = None, sentiment_score = None,
      relevance_score = None, categories = []\<rparr>"

text \<open>
  An observation at the clock reading \<open>t\<close> in which every client delivers the given
  articles.
\<close>

definition env_at :: "clock \<Rightarrow> NewsArticle list \<Rightarrow> fetch_env" where
  "env_at t arts =
     \<lparr>now_check = t, outcome = (\<lambda>name. Inr arts), now_store = t + 1, now_built = t + 2\<rparr>"

text \<open>
  An observation in which the NewsAPI client delivers an article with an offset-aware
  publication time and the RSS client one with a naive publication time, and an
  aggregator with these two clients whose cache holds an older snapshot written at the
  clock reading 5.
\<close>

definition mixed_env :: fetch_env where
  "mixed_env =
     \<lparr>now_check = 6,
      outcome = (\<lambda>name.
        if name = ''newsapi'' then Inr [example_article ''Rates cut'' (Aware 3)]
        else if name = ''rss'' then Inr [example_article ''Oil falls'' (Naive 4)]
        else Inr []),
      now_store = 7, now_built = 8\<rparr>"

definition two_source_aggregator :: NewsAggregator where
  "two_source_aggregator =
     \<lparr>clients = [''newsapi'', ''rss''],
      cache = [''market_news'' \<mapsto> (5, [example_article ''Old story'' (Naive 1)])],
      cache_ttl = timedelta_minutes 5\<rparr>"

text \<open>
  The fetchers a call awaits, as the registered clients give them: every client, the
  Alpha Vantage client only when sentiment is asked for.
\<close>

definition registered_fetchers :: "NewsAggregator \<Rightarrow> bool \<Rightarrow> string list" where
  "registered_fetchers self include_sentiment =
     filter (\<lambda>name. name \<noteq> ''alpha_vantage'' \<or> include_sentiment) (clients self)"

subsection \<open>Regime classification\<close>







text \<open>A loader and a reply used as concrete inputs.\<close>

definition out_of_range_reply :: string where
  "out_of_range_reply =
     ''{'' @ [CHR 0x22] @ ''confidence'' @ [CHR 0x22] @ '': 5, '' @
     [CHR 0x22] @ ''position_size_modifier'' @ [CHR 0x22] @ '': -2}''"

definition example_runtime :: py_runtime where
  "example_runtime =
     \<lparr>json_loads = (\<lambda>s.
        if s = out_of_range_reply
          then Inr (JDict [(''confidence'', JNum 5), (''position_size_modifier'', JNum (- 2))])
        else if s = ''{}'' then Inr (JDict [])
        else Inl JSONDecodeError),
      float_of_str = (\<lambda>s. None),
      exc_str = (\<lambda>e. ''error'')\<rparr>"







definition example_regime :: "MarketRegime \<Rightarrow> json \<Rightarrow> RegimeAnalysis" where
  "example_regime g strategy =
     \<lparr>regime = g, confidence = 1 / 2, reasoning = JStr [],
      recommended_strategy = strategy, position_size_modifier = 1 / 2,
      sector_recommendations = [], risk_level = JStr ''medium'', key_risks = JList [],
      outlook_horizon = JStr ''1-2 Wochen'', key_events_ahead = JList [],
      analysis_time = 0, news_count = 0\<rparr>"

subsection \<open>Position lifecycle\<close>

text \<open>
  The exit rule as the specification words it: exit in a crisis, otherwise exit when
  the unrealised profit or loss breaches the stop-loss or take-profit percentage that
  step 2 of the sizing algorithm gives the recommended strategy.  A value that is not a
  string equals none of the strategy names, which is the last branch of step 2.
\<close>

definition strategy_name :: "json \<Rightarrow> string" where
  "strategy_name v = (case v of JStr s \<Rightarrow> s | _ \<Rightarrow> [])"

definition exit_by_sizing_thresholds :: "RegimeAnalysis \<Rightarrow> rat \<Rightarrow> bool" where
  "exit_by_sizing_thresholds current_regime unrealized_pnl_pct =
     (regime current_regime = CRISIS \<or>
      (let (stop_loss_pct, take_profit_pct) =
             sizing_pcts (strategy_name (recommended_strategy current_regime)) None
       in unrealized_pnl_pct \<le> - stop_loss_pct \<or> unrealized_pnl_pct \<ge> take_profit_pct))"

section \<open>Auxiliary facts\<close>

subsection \<open>Deduplication and the cache\<close>

lemma dedup_loop_mem:
  "a \<in> set (dedup_loop xs seen u) \<longleftrightarrow>
     a \<in> set u \<or> (normalized a \<notin> seen \<and> List.find (\<lambda>b. normalized b = normalized a) xs = Some a)"
  by (induction xs arbitrary: seen u) auto

lemma dedup_loop_distinct:
  "distinct (map normalized u) \<Longrightarrow> normalized ` set u \<subseteq> seen \<Longrightarrow>
     distinct (map normalized (dedup_loop xs seen u))"
proof (induction xs arbitrary: seen u)
  case Nil
  then show ?case by simp
next
  case (Cons x xs)
  show ?case
  proof (cases "normalized x \<in> seen")
    case True
    with Cons show ?thesis by simp
  next
    case False
    with Cons.prems have "distinct (map normalized (u @ [x]))"
      and "normalized ` set (u @ [x]) \<subseteq> insert (normalized x) seen"
      by auto
    from Cons.IH [OF this] False show ?thesis by simp
  qed
qed

lemma set_sort_reverse: "set (sort_reverse f xs) = set xs"
  by (simp add: sort_reverse_def)

lemma distinct_map_sort_reverse:
  "distinct (map g (sort_reverse f xs)) = distinct (map g xs)"
proof -
  have ins: "distinct (map g (insort_key f x ys)) = (g x \<notin> g ` set ys \<and> distinct (map g ys))"
    for x ys
    by (induction ys) (auto simp: set_insort_key)
  have srt: "distinct (map g (sort_key f ys)) = distinct (map g ys)" for ys
    by (induction ys) (simp_all add: ins)
  have rv: "distinct (map g (rev ys)) = distinct (map g ys)" for ys
    by (simp add: rev_map [symmetric])
  show ?thesis
    by (simp add: sort_reverse_def rv srt)
qed

lemma sorted_sort_reverse: "sorted (rev (map f (sort_reverse f xs)))"
  by (simp add: sort_reverse_def rev_map)

lemma sort_reverse_Nil: "sort_reverse f [] = []"
  by (simp add: sort_reverse_def)

lemma sort_newest_first_Inr:
  "sort_newest_first xs = Inr out \<Longrightarrow> out = sort_reverse (\<lambda>x. micros (published_at x)) xs"
  by (simp add: sort_newest_first_def split: if_splits)

lemma sort_newest_first_uniform:
  "\<not> list_ex (\<lambda>x. is_aware (published_at x)) xs \<or>
   \<not> list_ex (\<lambda>x. \<not> is_aware (published_at x)) xs \<Longrightarrow>
     sort_newest_first xs = Inr (sort_reverse (\<lambda>x. micros (published_at x)) xs)"
  by (auto simp: sort_newest_first_def)

lemma deduplicate_Inr:
  "deduplicate xs = Inr out \<Longrightarrow>
     out = sort_reverse (\<lambda>x. micros (published_at x)) (dedup_loop xs {} [])"
  by (simp add: deduplicate_def sort_newest_first_Inr)

lemma deduplicate_mem:
  "deduplicate xs = Inr out \<Longrightarrow>
     a \<in> set out \<longleftrightarrow> List.find (\<lambda>b. normalized b = normalized a) xs = Some a"
  by (drule deduplicate_Inr) (simp add: set_sort_reverse dedup_loop_mem)

lemma deduplicate_distinct:
  "deduplicate xs = Inr out \<Longrightarrow> distinct (map normalized out)"
  by (drule deduplicate_Inr) (simp add: distinct_map_sort_reverse dedup_loop_distinct)

lemma deduplicate_sorted:
  "deduplicate xs = Inr out \<Longrightarrow> sorted (rev (map (\<lambda>x. micros (published_at x)) out))"
  by (drule deduplicate_Inr) (simp add: sorted_sort_reverse)

lemma deduplicate_Nil: "deduplicate [] = Inr []"
  by (simp add: deduplicate_def sort_newest_first_def sort_reverse_Nil)

lemma find_Some_mem: "List.find P xs = Some x \<Longrightarrow> x \<in> set xs \<and> P x"
  by (induction xs) (auto split: if_splits)

lemma dedup_loop_subset: "set (dedup_loop xs seen u) \<subseteq> set u \<union> set xs"
  by (auto simp: dedup_loop_mem dest: find_Some_mem)

lemma deduplicate_subset: "deduplicate xs = Inr out \<Longrightarrow> set out \<subseteq> set xs"
  by (auto simp: deduplicate_mem dest: find_Some_mem)

lemma deduplicate_covers:
  assumes "deduplicate xs = Inr out" and "a \<in> set xs"
  shows "\<exists>b \<in> set out. normalized b = normalized a"
proof -
  from assms(2) obtain b where b: "List.find (\<lambda>b. normalized b = normalized a) xs = Some b"
    by (cases "List.find (\<lambda>b. normalized b = normalized a) xs") (auto simp: find_None_iff)
  then have k: "normalized b = normalized a" by (auto simp: find_Some_iff)
  with b have "List.find (\<lambda>c. normalized c = normalized b) xs = Some b" by simp
  then show ?thesis using k by (auto simp: deduplicate_mem [OF assms(1)])
qed

text \<open>\<open>_deduplicate\<close> returns when the publication times are all of one kind.\<close>

lemma deduplicate_uniform:
  assumes "\<forall>a \<in> set xs. \<not> is_aware (published_at a)"
  shows "\<exists>out. deduplicate xs = Inr out"
proof -
  from assms dedup_loop_subset [of xs "{}" "[]"]
  have "\<not> list_ex (\<lambda>x. is_aware (published_at x)) (dedup_loop xs {} [])"
    by (auto simp: list_ex_iff)
  then show ?thesis
    by (simp add: deduplicate_def sort_newest_first_uniform)
qed

text \<open>It raises when a naive and an aware publication time meet among the retained articles.\<close>

lemma deduplicate_mixed_kinds:
  "deduplicate [example_article ''A'' (Naive 1), example_article ''B'' (Aware 2)] = Inl TypeError"
  by code_simp

lemma collect_set:
  "set (collect rs) = (\<Union>r \<in> set rs. case r of Inl e \<Rightarrow> {} | Inr arts \<Rightarrow> set arts)"
  by (induction rs rule: collect.induct) auto

lemma collect_failed: "\<forall>r \<in> set rs. failed r \<Longrightarrow> collect rs = []"
  by (induction rs rule: collect.induct) (auto simp: failed_def)

lemma build_articles: "articles (build_market_news arts now) = arts"
  by (simp add: build_market_news_def Let_def)

lemma build_empty_sentiment: "overall_sentiment (build_market_news [] now) = 0"
  by (simp add: build_market_news_def Let_def List.map_filter_simps)

lemma gmn_fetch:
  "\<not> serves_from_cache self use_cache (now_check env) \<Longrightarrow>
     get_market_news self use_cache incl env = fetch_market_news self incl env"
  by (auto simp: get_market_news_def serves_from_cache_def split: option.splits)

lemma gmn_cached:
  "serves_from_cache self use_cache (now_check env) \<Longrightarrow>
     cache self ''market_news'' = Some (ct, cd) \<Longrightarrow>
     get_market_news self use_cache incl env =
       Inr (self, build_market_news cd (now_built env), [])"
  by (auto simp: get_market_news_def serves_from_cache_def split: option.splits)

lemma gmn_entry:
  "get_market_news self use_cache incl env = Inr (self1, news1, tasks1) \<Longrightarrow>
     \<exists>ct. cache self1 ''market_news'' = Some (ct, articles news1)"
  by (auto simp: get_market_news_def fetch_market_news_def Let_def build_articles
           split: option.splits if_splits sum.splits)

lemma fetch_results:
  assumes "get_market_news self use_cache incl env = Inr (self1, news1, tasks1)"
    and "\<not> serves_from_cache self use_cache (now_check env)"
  shows "tasks1 = market_tasks self incl"
    and "deduplicate (collect (map (outcome env) (market_tasks self incl))) = Inr (articles news1)"
    and "news1 = build_market_news (articles news1) (now_built env)"
    and "cache self1 = (cache self)(''market_news'' \<mapsto> (now_store env, articles news1))"
  using assms
  by (auto simp: gmn_fetch fetch_market_news_def Let_def build_articles split: sum.splits)

lemma collect_succeeded:
  "set (collect (map (outcome env) tasks)) = succeeded_articles env tasks"
  by (simp add: collect_set succeeded_articles_def)

text \<open>
  The RSS client is always registered, so a call that runs the fetchers awaits at least
  one task; an empty task list marks the cached path.
\<close>

lemma init_registers_rss: "''rss'' \<in> set (clients (NewsAggregator_init config))"
  by (simp add: NewsAggregator_init_def)

lemma fetching_call_awaits:
  assumes "''rss'' \<in> set (clients self)"
    and "\<not> serves_from_cache self use_cache (now_check env)"
    and "get_market_news self use_cache incl env = Inr (self1, news1, tasks1)"
  shows "''rss'' \<in> set tasks1 \<and> clients self1 = clients self"
  using assms
  by (auto simp: gmn_fetch fetch_market_news_def Let_def market_tasks_def split: sum.splits)

text \<open>
  The clients that \<open>_initialize_clients\<close> can register are the four for which
  \<open>get_market_news\<close> builds a task, so the tasks awaited are the registered fetchers.
\<close>

lemma init_clients_known:
  "set (clients (NewsAggregator_init config)) \<subseteq>
     {''finnhub'', ''alpha_vantage'', ''newsapi'', ''rss''}"
  by (auto simp: NewsAggregator_init_def)

lemma market_tasks_subset:
  "set (market_tasks self incl) \<subseteq> set (registered_fetchers self incl)"
  by (auto simp: market_tasks_def registered_fetchers_def split: if_splits)

lemma market_tasks_registered:
  assumes "set (clients self) \<subseteq> {''finnhub'', ''alpha_vantage'', ''newsapi'', ''rss''}"
  shows "set (market_tasks self incl) = set (registered_fetchers self incl)"
proof
  show "set (market_tasks self incl) \<subseteq> set (registered_fetchers self incl)"
    by (rule market_tasks_subset)
  show "set (registered_fetchers self incl) \<subseteq> set (market_tasks self incl)"
  proof
    fix name
    assume "name \<in> set (registered_fetchers self incl)"
    then have c: "name \<in> set (clients self)" and a: "name \<noteq> ''alpha_vantage'' \<or> incl"
      by (auto simp: registered_fetchers_def)
    from c assms have "name = ''finnhub'' \<or> name = ''alpha_vantage'' \<or> name = ''newsapi'' \<or>
        name = ''rss''"
      by auto
    with c a show "name \<in> set (market_tasks self incl)"
      by (auto simp: market_tasks_def)
  qed
qed

lemma succeeded_articles_cong:
  "set xs = set ys \<Longrightarrow> succeeded_articles env xs = succeeded_articles env ys"
  by (simp add: succeeded_articles_def)

text \<open>
  What holds of the fetch path.  When every registered fetcher fails, the call returns
  a \<open>MarketNews\<close> without articles and with sentiment 0.  When a call returns, its
  articles are the union of what the registered fetchers that succeeded delivered,
  passed through \<open>_deduplicate\<close>; and it has written the cache slot.
\<close>

lemma all_failing_gives_empty_news:
  assumes fetches: "\<not> serves_from_cache self use_cache (now_check env)"
    and fails: "\<forall>name \<in> set (registered_fetchers self incl). failed (outcome env name)"
  shows "get_market_news self use_cache incl env =
           Inr (self\<lparr>cache := (cache self)(''market_news'' \<mapsto> (now_store env, []))\<rparr>,
                build_market_news [] (now_built env), market_tasks self incl) \<and>
         articles (build_market_news [] (now_built env)) = [] \<and>
         overall_sentiment (build_market_news [] (now_built env)) = 0"
proof -
  from fails market_tasks_subset [of self incl]
  have "\<forall>r \<in> set (map (outcome env) (market_tasks self incl)). failed r"
    by auto
  then have "collect (map (outcome env) (market_tasks self incl)) = []"
    by (rule collect_failed)
  then show ?thesis
    by (simp add: gmn_fetch [OF fetches] fetch_market_news_def Let_def deduplicate_Nil
          build_articles build_empty_sentiment)
qed

lemma returned_news_is_deduplicated_union:
  assumes call: "get_market_news self use_cache incl env = Inr (self1, news1, tasks1)"
    and fetches: "\<not> serves_from_cache self use_cache (now_check env)"
    and known: "set (clients self) \<subseteq> {''finnhub'', ''alpha_vantage'', ''newsapi'', ''rss''}"
  shows "set (articles news1) \<subseteq> succeeded_articles env (registered_fetchers self incl)"
    and "\<forall>a \<in> succeeded_articles env (registered_fetchers self incl).
           \<exists>b \<in> set (articles news1). normalized b = normalized a"
proof -
  note r = fetch_results [OF call fetches]
  have pool: "set (collect (map (outcome env) (market_tasks self incl))) =
      succeeded_articles env (registered_fetchers self incl)"
    by (simp add: collect_succeeded
          succeeded_articles_cong [OF market_tasks_registered [OF known]])
  show "set (articles news1) \<subseteq> succeeded_articles env (registered_fetchers self incl)"
    using deduplicate_subset [OF r(2)] by (simp add: pool)
  show "\<forall>a \<in> succeeded_articles env (registered_fetchers self incl).
           \<exists>b \<in> set (articles news1). normalized b = normalized a"
    using deduplicate_covers [OF r(2)] by (simp add: pool)
qed

lemma returning_fetch_writes_cache:
  assumes call: "get_market_news self use_cache incl env = Inr (self1, news1, tasks1)"
    and fetches: "use_cache = False \<or> \<not> serves_from_cache self use_cache (now_check env)"
  shows "cache self1 ''market_news'' = Some (now_store env, articles news1)"
proof -
  from fetches have nf: "\<not> serves_from_cache self use_cache (now_check env)"
    by (auto simp: serves_from_cache_def split: option.splits)
  from fetch_results(4) [OF call nf] show ?thesis by simp
qed

subsection \<open>The parser\<close>


lemma attempt_Inr: "attempt (Inr x) k = k x"
  by (simp add: attempt_def)


lemma json_get_dict: "json_get (JDict kvs) k d = Inr (case map_of kvs k of None \<Rightarrow> d | Some v \<Rightarrow> v)"
  by (simp add: json_get_def)




lemma upper_default: "py_upper ''RANGE_BOUND'' = ''RANGE_BOUND''"
  by (simp add: py_upper_def char_upper_def)








subsection \<open>Sizing\<close>


section \<open>The sizing engine\<close>

text \<open>
  Claim C1.  With a capital of 50000 and the default limits, sizing an entry at 150 for
  the momentum strategy with signal strength 0.8 on NASDAQ, at a portfolio risk of 0.02
  and without a volatility, is viable: 12 shares, stop-loss 142.50, take-profit 172.50.
\<close>

theorem sizing_scenario_momentum:
  "calculate_position_size (RiskManager_init 50000) ''AAPL'' 150 ''momentum'' (8 / 10)
       ''NASDAQ'' (2 / 100) None =
     Inr \<lparr>shares = 12, position_value = 1800, risk_amount = 90,
          stop_loss_price = 285 / 2, take_profit_price = 345 / 2, viable = True,
          reason = SizingOK 12 2 (Finite (19 / 45))\<rparr>"
  by code_simp



text \<open>
  Claim C9.  In every result that \<open>calculate_position_size\<close> returns, a result that is
  not viable has no shares, no position value and no risk amount, a viable one has at
  least one share, and so the result has a share exactly when it is viable.
\<close>

theorem sizing_shares_iff_viable:
  assumes "calculate_position_size self symbol entry_price strategy signal_strength exchange
             current_portfolio_risk volatility = Inr r"
  shows "(\<not> viable r \<longrightarrow> shares r = 0 \<and> position_value r = 0 \<and> risk_amount r = 0) \<and>
         (viable r \<longrightarrow> 1 \<le> shares r) \<and>
         (1 \<le> shares r \<longleftrightarrow> viable r)"
  using assms
  unfolding calculate_position_size_def size_adjusted_def py_truediv_def Let_def rejected_def
  by (auto split: prod.splits if_splits)

text \<open>C9 at a viable result and at one rejected as too small (signal strength 0).\<close>

theorem sizing_shares_iff_viable_witness:
  "calculate_position_size (RiskManager_init 50000) ''AAPL'' 150 ''momentum'' (8 / 10)
       ''NASDAQ'' (2 / 100) None =
     Inr \<lparr>shares = 12, position_value = 1800, risk_amount = 90,
          stop_loss_price = 285 / 2, take_profit_price = 345 / 2, viable = True,
          reason = SizingOK 12 2 (Finite (19 / 45))\<rparr> \<and>
   (1::int) \<le> 12 \<and>
   calculate_position_size (RiskManager_init 50000) ''AAPL'' 150 ''momentum'' 0
       ''NASDAQ'' (2 / 100) None =
     Inr (rejected (285 / 2) (345 / 2) (Message msg_too_small)) \<and>
   shares (rejected (285 / 2) (345 / 2) (Message msg_too_small)) = 0 \<and>
   position_value (rejected (285 / 2) (345 / 2) (Message msg_too_small)) = 0 \<and>
   risk_amount (rejected (285 / 2) (345 / 2) (Message msg_too_small)) = 0"
proof -
  have v: "calculate_position_size (RiskManager_init 50000) ''AAPL'' 150 ''momentum'' (8 / 10)
       ''NASDAQ'' (2 / 100) None =
     Inr \<lparr>shares = 12, position_value = 1800, risk_amount = 90,
          stop_loss_price = 285 / 2, take_profit_price = 345 / 2, viable = True,
          reason = SizingOK 12 2 (Finite (19 / 45))\<rparr>"
    by code_simp
  have n: "calculate_position_size (RiskManager_init 50000) ''AAPL'' 150 ''momentum'' 0
       ''NASDAQ'' (2 / 100) None = Inr (rejected (285 / 2) (345 / 2) (Message msg_too_small))"
    by code_simp
  have nv: "\<not> viable (rejected (285 / 2) (345 / 2) (Message msg_too_small))"
    by (simp add: rejected_def)
  from sizing_shares_iff_viable [OF v] sizing_shares_iff_viable [OF n] nv v n
  show ?thesis by simp
qed

section \<open>News fusion\<close>

text \<open>
  Claim C2, as the code has it.  Among the articles that share a normalized headline,
  \<open>_deduplicate\<close> retains the one that comes first in its input, whatever the
  publication times: an article is in the output exactly when it is the first of the
  input with its key.  The output has one article for each key and is ordered from the
  newest to the oldest.
\<close>

theorem deduplicate_keeps_first_seen:
  assumes "deduplicate arts = Inr out"
  shows "(a \<in> set out \<longleftrightarrow>
            List.find (\<lambda>b. normalized b = normalized a) arts = Some a) \<and>
         distinct (map normalized out) \<and>
         sorted (rev (map (\<lambda>x. micros (published_at x)) out))"
  using deduplicate_mem [OF assms] deduplicate_distinct [OF assms] deduplicate_sorted [OF assms]
  by simp

text \<open>
  The claim as stated fails: of two articles with the same key, the older one is
  retained when it comes first in the input.
\<close>

theorem dedup_keeps_older_duplicate:
  "normalized (example_article ''Fed cuts rates'' (Naive 1)) =
     normalized (example_article '' FED CUTS RATES'' (Naive 2)) \<and>
   micros (published_at (example_article ''Fed cuts rates'' (Naive 1))) <
     micros (published_at (example_article '' FED CUTS RATES'' (Naive 2))) \<and>
   deduplicate [example_article ''Fed cuts rates'' (Naive 1),
                example_article '' FED CUTS RATES'' (Naive 2)] =
     Inr [example_article ''Fed cuts rates'' (Naive 1)]"
  by code_simp

text \<open>The amended C2 on the same two articles.\<close>

theorem deduplicate_keeps_first_seen_witness:
  "example_article ''Fed cuts rates'' (Naive 1) \<in>
     set [example_article ''Fed cuts rates'' (Naive 1)] \<and>
   List.find (\<lambda>b. normalized b = normalized (example_article ''Fed cuts rates'' (Naive 1)))
     [example_article ''Fed cuts rates'' (Naive 1),
      example_article '' FED CUTS RATES'' (Naive 2)] =
     Some (example_article ''Fed cuts rates'' (Naive 1))"
proof -
  let ?old = "example_article ''Fed cuts rates'' (Naive 1)"
  let ?new = "example_article '' FED CUTS RATES'' (Naive 2)"
  have run: "deduplicate [?old, ?new] = Inr [?old]"
    by code_simp
  from deduplicate_keeps_first_seen [OF run, of ?old]
  show ?thesis by simp
qed

text \<open>
  Claim C4 does not hold of the code.  With the NewsAPI client and the RSS client both
  succeeding, one with an article dated with a UTC offset and one with an article
  dated without, the sort inside \<open>_deduplicate\<close> raises \<open>TypeError\<close> and the exception
  leaves \<open>get_market_news\<close>: the call returns no union of the two deliveries.  (When
  every registered fetcher fails the call does return an empty \<open>MarketNews\<close>, and a
  call that returns does return the deduplicated union: lemmas
  \<open>all_failing_gives_empty_news\<close> and \<open>returned_news_is_deduplicated_union\<close>.)
\<close>

theorem mixed_datetimes_fail_the_fetch:
  "clients (NewsAggregator_init [''newsapi_key'' \<mapsto> ''k'']) = [''newsapi'', ''rss''] \<and>
   outcome mixed_env ''newsapi'' = Inr [example_article ''Rates cut'' (Aware 3)] \<and>
   outcome mixed_env ''rss'' = Inr [example_article ''Oil falls'' (Naive 4)] \<and>
   get_market_news (NewsAggregator_init [''newsapi_key'' \<mapsto> ''k'']) True True mixed_env =
     Inl TypeError"
proof -
  have dedup: "deduplicate [example_article ''Rates cut'' (Aware 3),
                            example_article ''Oil falls'' (Naive 4)] = Inl TypeError"
    by code_simp
  show ?thesis
    by (simp add: NewsAggregator_init_def config_has_def get_market_news_def
          fetch_market_news_def market_tasks_def Let_def mixed_env_def dedup)
qed

text \<open>
  Claim C7.  After a call with \<open>use_cache=True\<close>, a second such call inside the time to
  live of the cache entry returns the same articles, awaits no fetcher and leaves the
  aggregator as it was.  The time to live of a new aggregator is five minutes.
\<close>

theorem cached_call_repeats_articles:
  assumes first: "get_market_news self True incl1 env1 = Inr (self1, news1, tasks1)"
    and entry: "cache self1 ''market_news'' = Some (cached_time, cached_data)"
    and window: "now_check env2 - cached_time < cache_ttl self1"
  shows "(\<exists>news2. get_market_news self1 True incl2 env2 = Inr (self1, news2, []) \<and>
                 articles news2 = articles news1) \<and>
         cache_ttl (NewsAggregator_init config) = timedelta_minutes 5"
proof -
  from gmn_entry [OF first] entry have data: "cached_data = articles news1"
    by auto
  from entry window have "serves_from_cache self1 True (now_check env2)"
    by (simp add: serves_from_cache_def)
  from gmn_cached [OF this entry, of incl2] data show ?thesis
    by (simp add: build_articles NewsAggregator_init_def)
qed

text \<open>
  C7 with a second call one microsecond before the entry expires, at a moment when the
  fetchers would deliver another article.
\<close>

theorem cached_call_repeats_articles_witness:
  "\<exists>self1 news1 tasks1 news2.
     get_market_news (NewsAggregator_init Map.empty) True True
         (env_at 0 [example_article ''First story'' (Naive 7)]) = Inr (self1, news1, tasks1) \<and>
     get_market_news self1 True True
         (env_at 300000000 [example_article ''Second story'' (Naive 9)]) =
       Inr (self1, news2, []) \<and>
     articles news2 = [example_article ''First story'' (Naive 7)]"
proof -
  let ?self = "NewsAggregator_init Map.empty"
  let ?a = "example_article ''First story'' (Naive 7)"
  let ?env1 = "env_at 0 [?a]"
  let ?env2 = "env_at 300000000 [example_article ''Second story'' (Naive 9)]"
  let ?self1 = "\<lparr>clients = [''rss''], cache = [''market_news'' \<mapsto> (1, [?a])],
                 cache_ttl = 300000000\<rparr>"
  have init: "?self = \<lparr>clients = [''rss''], cache = Map.empty, cache_ttl = 300000000\<rparr>"
    by (simp add: NewsAggregator_init_def config_has_def timedelta_minutes_def)
  have dedup1: "deduplicate [?a] = Inr [?a]"
    by (simp add: deduplicate_def sort_newest_first_def sort_reverse_def example_article_def)
  have first: "get_market_news ?self True True ?env1 =
      Inr (?self1, build_market_news [?a] 2, [''rss''])"
    by (simp add: init get_market_news_def fetch_market_news_def Let_def market_tasks_def
          env_at_def dedup1)
  have entry: "cache ?self1 ''market_news'' = Some (1, [?a])"
    by simp
  have window: "now_check ?env2 - 1 < cache_ttl ?self1"
    by (simp add: env_at_def)
  from cached_call_repeats_articles [OF first entry window, of True] first
  show ?thesis by (auto simp: build_articles)
qed

text \<open>
  Claim C10 does not hold of the code.  \<open>_deduplicate\<close> runs before the cache is
  written, so a call with \<open>use_cache=False\<close> whose sort raises \<open>TypeError\<close> writes
  nothing, and the call with \<open>use_cache=True\<close> that follows inside the time to live of
  the old entry is answered from the older snapshot.  (A fetching call that returns
  has written the slot: lemma \<open>returning_fetch_writes_cache\<close>.)
\<close>

theorem raising_fetch_keeps_old_snapshot:
  "get_market_news two_source_aggregator False True mixed_env = Inl TypeError \<and>
   get_market_news two_source_aggregator True True (env_at 9 []) =
     Inr (two_source_aggregator,
          build_market_news [example_article ''Old story'' (Naive 1)] 11, [])"
proof -
  have dedup: "deduplicate [example_article ''Rates cut'' (Aware 3),
                            example_article ''Oil falls'' (Naive 4)] = Inl TypeError"
    by code_simp
  have raises: "get_market_news two_source_aggregator False True mixed_env = Inl TypeError"
    by (simp add: get_market_news_def fetch_market_news_def market_tasks_def Let_def
          mixed_env_def two_source_aggregator_def dedup)
  have entry: "cache two_source_aggregator ''market_news'' =
      Some (5, [example_article ''Old story'' (Naive 1)])"
    by (simp add: two_source_aggregator_def)
  have fresh: "serves_from_cache two_source_aggregator True (now_check (env_at 9 []))"
    by (simp add: serves_from_cache_def two_source_aggregator_def env_at_def
          timedelta_minutes_def)
  from gmn_cached [OF fresh entry, of True] raises show ?thesis
    by (simp add: env_at_def)
qed

section \<open>Regime classification\<close>




text \<open>
  Claim C6 does not hold of the code.  A reply that decodes to an object with numeric
  \<open>confidence\<close> and \<open>position_size_modifier\<close> yields an analysis with exactly these
  numbers, whatever they are: the parser converts them with \<open>float\<close> and checks no
  range.
\<close>

theorem numeric_fields_pass_unchecked:
  assumes "unfence response = Inr inner"
    and "json_loads rt (py_strip inner) =
           Inr (JDict [(''confidence'', JNum c), (''position_size_modifier'', JNum m)])"
  shows "confidence (parse_response rt response market_news now) = c \<and>
         position_size_modifier (parse_response rt response market_news now) = m"
  using assms
  by (simp add: parse_response_def parse_attempt_def analysis_of_data_def attempt_Inr
        regime_of_data_def sector_recs_of_data_def float_of_data_def json_get_dict
        json_upper_def upper_default MarketRegime_named_def json_iter_def py_float_def)

text \<open>The reply \<open>{"confidence": 5, "position_size_modifier": -2}\<close>.\<close>

theorem numeric_fields_pass_unchecked_witness:
  "confidence (parse_response example_runtime out_of_range_reply (build_market_news [] 0) 0) = 5 \<and>
   position_size_modifier
     (parse_response example_runtime out_of_range_reply (build_market_news [] 0) 0) = - 2"
proof -
  have plain: "unfence out_of_range_reply = Inr out_of_range_reply"
    by (simp add: unfence_def fence_json_def fence_def out_of_range_reply_def)
  have strip: "py_strip out_of_range_reply = out_of_range_reply"
    by (simp add: py_strip_def out_of_range_reply_def is_space_def)
  have loads: "json_loads example_runtime (py_strip out_of_range_reply) =
      Inr (JDict [(''confidence'', JNum 5), (''position_size_modifier'', JNum (- 2))])"
    by (simp add: strip) (simp add: example_runtime_def)
  from numeric_fields_pass_unchecked [OF plain loads]
  show ?thesis .
qed

section \<open>Position lifecycle\<close>

text \<open>
  The exit check agrees with the rule of the specification in a crisis and for the
  strategies \<open>momentum\<close> and \<open>mean_reversion\<close>.
\<close>

lemma exit_in_crisis:
  "regime current_regime = CRISIS \<Longrightarrow> fst (check_exit_conditions current_regime pnl)"
  by (simp add: check_exit_conditions_def)

lemma exit_agrees_momentum_mean_reversion:
  assumes "recommended_strategy current_regime = JStr ''momentum'' \<or>
           recommended_strategy current_regime = JStr ''mean_reversion''"
  shows "fst (check_exit_conditions current_regime pnl) =
         exit_by_sizing_thresholds current_regime pnl"
  using assms
  by (auto simp: check_exit_conditions_def exit_by_sizing_thresholds_def sizing_pcts_def
        strategy_name_def Let_def)

text \<open>
  Claim C5 does not hold of the code.  For the strategy \<open>hedge\<close> step 2 of the sizing
  gives a stop-loss of 7 percent, so a loss of 4 percent is no breach; the exit check
  treats every strategy other than \<open>momentum\<close> with 3 and 6 percent and signals the
  exit.
\<close>

theorem exit_thresholds_differ_for_hedge:
  "check_exit_conditions (example_regime RANGE_BOUND (JStr ''hedge'')) (- (4 / 100)) =
     (True, StopLossReached (- (4 / 100))) \<and>
   sizing_pcts ''hedge'' None = (7 / 100, 10 / 100) \<and>
   \<not> exit_by_sizing_thresholds (example_regime RANGE_BOUND (JStr ''hedge'')) (- (4 / 100))"
  by (simp add: check_exit_conditions_def example_regime_def sizing_pcts_def
        exit_by_sizing_thresholds_def strategy_name_def)

end
